theory Spec2Isabelle
  imports Complex_Main "HOL-Library.Sublist"
begin

section \<open>Values of the host language\<close>

text \<open>
  The operand stack of \<open>resolveRpn\<close> holds JavaScript values. Three kinds occur: numbers
  (results of \<open>parseFloat\<close> and of the arithmetic behaviours), strings (raw literals when
  \<open>parse_raw\<close> is set) and \<open>undefined\<close> (a missing argument, or \<open>stack[0]\<close> of an empty
  array).

  Numbers are modelled by the real number they denote, together with \<open>NaN\<close> and the two
  infinities. Rounding to binary64 and the sign of zero are not modelled: the model agrees
  with the host wherever every value involved is exactly representable, which is the case
  for the integers of small magnitude that the examples use.
\<close>

datatype jsnum = Fin real | NaN | PosInf | NegInf

datatype jsval = JNum jsnum | JStr string | JUndefined

fun num_neg :: "jsnum \<Rightarrow> jsnum" where
  "num_neg (Fin x) = Fin (- x)"
| "num_neg NaN = NaN"
| "num_neg PosInf = NegInf"
| "num_neg NegInf = PosInf"

fun num_add :: "jsnum \<Rightarrow> jsnum \<Rightarrow> jsnum" where
  "num_add (Fin x) (Fin y) = Fin (x + y)"
| "num_add NaN b = NaN"
| "num_add a NaN = NaN"
| "num_add PosInf NegInf = NaN"
| "num_add NegInf PosInf = NaN"
| "num_add PosInf b = PosInf"
| "num_add a PosInf = PosInf"
| "num_add NegInf b = NegInf"
| "num_add a NegInf = NegInf"

definition num_sub :: "jsnum \<Rightarrow> jsnum \<Rightarrow> jsnum" where
  "num_sub a b = num_add a (num_neg b)"

text \<open>\<open>inf_of pos\<close> is the infinity of the given sign.\<close>

definition inf_of :: "bool \<Rightarrow> jsnum" where
  "inf_of pos = (if pos then PosInf else NegInf)"

fun num_mul :: "jsnum \<Rightarrow> jsnum \<Rightarrow> jsnum" where
  "num_mul (Fin x) (Fin y) = Fin (x * y)"
| "num_mul NaN b = NaN"
| "num_mul a NaN = NaN"
| "num_mul (Fin x) b = (if x = 0 then NaN else inf_of ((0 < x) = (b = PosInf)))"
| "num_mul a (Fin y) = (if y = 0 then NaN else inf_of ((0 < y) = (a = PosInf)))"
| "num_mul a b = inf_of (a = b)"

fun num_div :: "jsnum \<Rightarrow> jsnum \<Rightarrow> jsnum" where
  "num_div (Fin x) (Fin y) =
     (if y = 0 then (if x = 0 then NaN else inf_of (0 < x)) else Fin (x / y))"
| "num_div NaN b = NaN"
| "num_div a NaN = NaN"
| "num_div (Fin x) b = Fin 0"
| "num_div a (Fin y) = inf_of ((0 \<le> y) = (a = PosInf))"
| "num_div a b = NaN"

text \<open>
  \<open>Math.pow\<close> on numbers, following the case list of the language standard
  (\<open>Number::exponentiate\<close>), with the two zeros identified.
\<close>

definition is_integral :: "real \<Rightarrow> bool" where
  "is_integral y = (y = of_int \<lfloor>y\<rfloor>)"

definition is_odd_integral :: "real \<Rightarrow> bool" where
  "is_odd_integral y = (is_integral y \<and> odd \<lfloor>y\<rfloor>)"

fun num_pow :: "jsnum \<Rightarrow> jsnum \<Rightarrow> jsnum" where
  "num_pow base NaN = NaN"
| "num_pow NaN (Fin y) = (if y = 0 then Fin 1 else NaN)"
| "num_pow NaN e = NaN"
| "num_pow PosInf (Fin y) = (if y = 0 then Fin 1 else if 0 < y then PosInf else Fin 0)"
| "num_pow PosInf PosInf = PosInf"
| "num_pow PosInf NegInf = Fin 0"
| "num_pow NegInf (Fin y) =
     (if y = 0 then Fin 1
      else if 0 < y then (if is_odd_integral y then NegInf else PosInf)
      else Fin 0)"
| "num_pow NegInf PosInf = PosInf"
| "num_pow NegInf NegInf = Fin 0"
| "num_pow (Fin x) PosInf =
     (if x = 0 then Fin 0
      else if 1 < \<bar>x\<bar> then PosInf else if \<bar>x\<bar> = 1 then NaN else Fin 0)"
| "num_pow (Fin x) NegInf =
     (if x = 0 then PosInf
      else if 1 < \<bar>x\<bar> then Fin 0 else if \<bar>x\<bar> = 1 then NaN else PosInf)"
| "num_pow (Fin x) (Fin y) =
     (if y = 0 then Fin 1
      else if x = 0 then (if 0 < y then Fin 0 else PosInf)
      else if is_integral y then Fin (x powi \<lfloor>y\<rfloor>)
      else if x < 0 then NaN
      else Fin (x powr y))"

text \<open>
  The implicit conversions between strings and numbers (\<open>ToNumber\<close> of a string,
  \<open>ToString\<close> of a number) are primitives of the host. Printing a number depends on its
  binary64 representation, which is outside this model, so both conversions are taken as
  parameters of the default operator table. They are reached only when a default
  behaviour receives a string operand, that is, with \<open>parse_raw\<close> set.
\<close>

record coercions =
  string_to_number :: "string \<Rightarrow> jsnum"
  number_to_string :: "jsnum \<Rightarrow> string"

definition ToNumber :: "coercions \<Rightarrow> jsval \<Rightarrow> jsnum" where
  "ToNumber c v =
     (case v of JNum n \<Rightarrow> n | JStr s \<Rightarrow> string_to_number c s | JUndefined \<Rightarrow> NaN)"

definition ToString :: "coercions \<Rightarrow> jsval \<Rightarrow> string" where
  "ToString c v =
     (case v of JNum n \<Rightarrow> number_to_string c n | JStr s \<Rightarrow> s
      | JUndefined \<Rightarrow> ''undefined'')"

definition is_string :: "jsval \<Rightarrow> bool" where
  "is_string v = (case v of JStr s \<Rightarrow> True | _ \<Rightarrow> False)"

text \<open>The binary operators \<open>a + b\<close>, \<open>a - b\<close>, \<open>a * b\<close>, \<open>a / b\<close> and \<open>Math.pow(a, b)\<close>.\<close>

definition js_add :: "coercions \<Rightarrow> jsval \<Rightarrow> jsval \<Rightarrow> jsval" where
  "js_add c a b =
     (if is_string a \<or> is_string b then JStr (ToString c a @ ToString c b)
      else JNum (num_add (ToNumber c a) (ToNumber c b)))"

definition js_sub :: "coercions \<Rightarrow> jsval \<Rightarrow> jsval \<Rightarrow> jsval" where
  "js_sub c a b = JNum (num_sub (ToNumber c a) (ToNumber c b))"

definition js_mul :: "coercions \<Rightarrow> jsval \<Rightarrow> jsval \<Rightarrow> jsval" where
  "js_mul c a b = JNum (num_mul (ToNumber c a) (ToNumber c b))"

definition js_div :: "coercions \<Rightarrow> jsval \<Rightarrow> jsval \<Rightarrow> jsval" where
  "js_div c a b = JNum (num_div (ToNumber c a) (ToNumber c b))"

definition Math_pow :: "coercions \<Rightarrow> jsval \<Rightarrow> jsval \<Rightarrow> jsval" where
  "Math_pow c a b = JNum (num_pow (ToNumber c a) (ToNumber c b))"

section \<open>Strings, \<open>parseFloat\<close> and objects of the host language\<close>

text \<open>
  A string is a list of characters. \<open>parseFloat\<close> skips leading white space and reads
  the longest prefix that is a decimal literal (optional sign, \<open>Infinity\<close> or digits with
  an optional fraction and exponent); when there is none the result is \<open>NaN\<close>. It never
  raises. Only the white space characters of ASCII are modelled; the other white space
  of the host (such as the no-break space) is outside this model.
\<close>

definition is_white :: "char \<Rightarrow> bool" where
  "is_white ch = (ch \<in> set [CHR 0x09, CHR 0x0A, CHR 0x0B, CHR 0x0C, CHR 0x0D, CHR 0x20])"

definition is_digit :: "char \<Rightarrow> bool" where
  "is_digit ch = (ch \<in> set ''0123456789'')"

definition digit_value :: "char \<Rightarrow> nat" where
  "digit_value ch = of_char ch - 48"

definition digits_value :: "string \<Rightarrow> nat" where
  "digits_value ds = foldl (\<lambda>n ch. 10 * n + digit_value ch) 0 ds"

definition strip_sign :: "string \<Rightarrow> bool \<times> string" where
  "strip_sign s =
     (case s of
        [] \<Rightarrow> (False, s)
      | ch # r \<Rightarrow>
          if ch = CHR ''-'' then (True, r) else if ch = CHR ''+'' then (False, r)
          else (False, s))"

definition exponent_part :: "string \<Rightarrow> int" where
  "exponent_part s =
     (case s of
        [] \<Rightarrow> 0
      | ch # r \<Rightarrow>
          if ch = CHR ''e'' \<or> ch = CHR ''E'' then
            (case strip_sign r of
               (neg, r') \<Rightarrow>
                 (let ds = takeWhile is_digit r' in
                  if ds = [] then 0
                  else if neg then - int (digits_value ds) else int (digits_value ds)))
          else 0)"

definition parseFloat :: "string \<Rightarrow> jsnum" where
  "parseFloat s =
     (case strip_sign (dropWhile is_white s) of
        (neg, r) \<Rightarrow>
          if prefix ''Infinity'' r then inf_of (\<not> neg)
          else
            (let ip = takeWhile is_digit r;
                 r1 = dropWhile is_digit r;
                 fp = (if prefix ''.'' r1 then takeWhile is_digit (drop 1 r1) else []);
                 r2 = (if prefix ''.'' r1 then dropWhile is_digit (drop 1 r1) else r1)
             in if ip = [] \<and> fp = [] then NaN
                else
                  (let m = real (digits_value ip) + real (digits_value fp) / 10 ^ length fp;
                       v = m * 10 powi exponent_part r2
                   in Fin (if neg then - v else v))))"

text \<open>
  A plain object is the list of its own properties in creation order (keys distinct).
  \<open>Object.keys\<close> lists the keys that are array indices first, in ascending numeric order,
  and then the other keys in creation order.
\<close>

type_synonym 'a js_object = "(string \<times> 'a) list"

definition is_array_index :: "string \<Rightarrow> bool" where
  "is_array_index k =
     (k \<noteq> [] \<and> list_all is_digit k \<and> (k = ''0'' \<or> \<not> prefix ''0'' k)
      \<and> digits_value k < 2 ^ 32 - 1)"

definition Object_keys :: "'a js_object \<Rightarrow> string list" where
  "Object_keys obj =
     (let ks = map fst obj
      in sort_key digits_value (filter is_array_index ks)
         @ filter (\<lambda>k. \<not> is_array_index k) ks)"

text \<open>
  Reading a property \<open>obj[k]\<close> of a plain object finds an own property, and otherwise
  looks the key up in \<open>Object.prototype\<close>, whose properties are all truthy (functions,
  and the prototype object itself for \<open>__proto__\<close>) and are not operator descriptors.
\<close>

definition Object_prototype_keys :: "string list" where
  "Object_prototype_keys =
     [''constructor'', ''hasOwnProperty'', ''isPrototypeOf'', ''propertyIsEnumerable'',
      ''toLocaleString'', ''toString'', ''valueOf'', ''__proto__'',
      ''__defineGetter__'', ''__defineSetter__'', ''__lookupGetter__'',
      ''__lookupSetter__'']"

datatype 'a property = Own 'a | Inherited | Absent

definition get_property :: "'a js_object \<Rightarrow> string \<Rightarrow> 'a property" where
  "get_property obj k =
     (case map_of obj k of
        Some v \<Rightarrow> Own v
      | None \<Rightarrow> if k \<in> set Object_prototype_keys then Inherited else Absent)"

section \<open>Operator descriptors and the evaluator instance\<close>

text \<open>
  Modelled from the spec: the class \<open>Operator\<close> (file \<open>Operator.js\<close>) is imported by
  \<open>ShuntingYard.js\<close> but is not among the sources. Its constructor is called as
  \<open>new Operator(symbol, precedence, associativity, arity, behaviour)\<close>, for instance
  \<open>new Operator('+', 2, 'left', 2, function(a, b) { return a + b })\<close>, and the evaluator
  reads the fields \<open>params\<close> (the arity) and \<open>method\<close> (the behaviour). The descriptor of
  the spec has a symbol, an integer precedence, an associativity (left or right), an
  arity of at least one and a behaviour. A behaviour is a function of the argument list it
  is applied to; a behaviour that throws is outside the model.
\<close>

record Operator =
  symbol :: string
  precedence :: int
  associativity :: string
  params :: int
  method' :: "jsval list \<Rightarrow> jsval"

text \<open>
  Modelled from the spec: the three predicates of \<open>Operator\<close> that \<open>parse\<close> calls.
  \<open>leftAssoc\<close> holds iff the associativity is left, \<open>lessThen\<close> iff this descriptor's
  precedence is strictly less than the other's, and \<open>lessThenEqual\<close> iff it is less than
  or equal to the other's.
\<close>

definition leftAssoc :: "Operator \<Rightarrow> bool" where
  "leftAssoc this = (associativity this = ''left'')"

definition lessThen :: "Operator \<Rightarrow> Operator \<Rightarrow> bool" where
  "lessThen this other = (precedence this < precedence other)"

definition lessThenEqual :: "Operator \<Rightarrow> Operator \<Rightarrow> bool" where
  "lessThenEqual this other = (precedence this \<le> precedence other)"

text \<open>
  A JavaScript function called with fewer arguments than it has parameters sees the
  missing ones as \<open>undefined\<close>.
\<close>

definition arg :: "jsval list \<Rightarrow> nat \<Rightarrow> jsval" where
  "arg args n = (if n < length args then args ! n else JUndefined)"

record ShuntingYard =
  operators :: "Operator js_object"
  functions' :: "Operator js_object"
  parse_raw :: bool

definition default_operators :: "coercions \<Rightarrow> Operator js_object" where
  "default_operators c =
     [(''+'', \<lparr>symbol = ''+'', precedence = 2, associativity = ''left'', params = 2,
              method' = (\<lambda>args. js_add c (arg args 0) (arg args 1))\<rparr>),
      (''-'', \<lparr>symbol = ''-'', precedence = 2, associativity = ''left'', params = 2,
              method' = (\<lambda>args. js_sub c (arg args 0) (arg args 1))\<rparr>),
      (''*'', \<lparr>symbol = ''*'', precedence = 3, associativity = ''left'', params = 2,
              method' = (\<lambda>args. js_mul c (arg args 0) (arg args 1))\<rparr>),
      (''/'', \<lparr>symbol = ''/'', precedence = 3, associativity = ''left'', params = 2,
              method' = (\<lambda>args. js_div c (arg args 0) (arg args 1))\<rparr>),
      (''^'', \<lparr>symbol = ''^'', precedence = 4, associativity = ''right'', params = 2,
              method' = (\<lambda>args. Math_pow c (arg args 0) (arg args 1))\<rparr>)]"

text \<open>
  The constructor: each option that is absent falls back to its default (the five
  arithmetic operators, no functions, numeric literals).
\<close>

record options =
  opt_operators :: "Operator js_object option"
  opt_functions :: "Operator js_object option"
  opt_parse_raw :: "bool option"

definition no_options :: options where
  "no_options = \<lparr>opt_operators = None, opt_functions = None, opt_parse_raw = None\<rparr>"

definition constructor :: "coercions \<Rightarrow> options \<Rightarrow> ShuntingYard" where
  "constructor c opts =
     \<lparr>operators = (case opt_operators opts of Some t \<Rightarrow> t | None \<Rightarrow> default_operators c),
      functions' = (case opt_functions opts of Some t \<Rightarrow> t | None \<Rightarrow> []),
      parse_raw = (case opt_parse_raw opts of Some b \<Rightarrow> b | None \<Rightarrow> False)\<rparr>"

definition isLeftPara :: "string \<Rightarrow> bool" where
  "isLeftPara token = (token = ''('')"

definition isRightPara :: "string \<Rightarrow> bool" where
  "isRightPara token = (token = '')'')"

definition isOperator :: "ShuntingYard \<Rightarrow> string \<Rightarrow> bool" where
  "isOperator this token = (token \<in> set (Object_keys (operators this)))"

definition isFunction :: "ShuntingYard \<Rightarrow> string \<Rightarrow> bool" where
  "isFunction this token = (token \<in> set (Object_keys (functions' this)))"

section \<open>The parser\<close>

text \<open>
  \<open>parse\<close> accepts a string or an array of tokens; the elements of an array are strings,
  as the tokens of the spec are. The arrays \<open>stack\<close> and \<open>output\<close> are lists whose last
  element is the most recently pushed one, as in the source: \<open>push\<close> appends and \<open>pop\<close>
  removes the last element. The variables \<open>sign\<close> and \<open>lastToken\<close> start out undefined
  (\<open>None\<close>, which also stands for \<open>null\<close>); a value is truthy when it is a non-empty
  string.
\<close>

datatype error = SyntaxError string | TypeError

datatype input = Str string | Arr "string list"

record pstate =
  output' :: "string list"
  stack :: "string list"
  sign :: "string option"
  lastToken :: "string option"

definition initial :: pstate where
  "initial = \<lparr>output' = [], stack = [], sign = None, lastToken = None\<rparr>"

definition truthy :: "string option \<Rightarrow> bool" where
  "truthy v = (case v of None \<Rightarrow> False | Some s \<Rightarrow> s \<noteq> [])"

definition input_length :: "input \<Rightarrow> nat" where
  "input_length str = (case str of Str s \<Rightarrow> length s | Arr ts \<Rightarrow> length ts)"

definition op_tokens :: "ShuntingYard \<Rightarrow> string list" where
  "op_tokens this = Object_keys (operators this) @ Object_keys (functions' this)"

text \<open>
  The inner \<open>for\<close> loop over \<open>op_tokens\<close> for a string input: \<open>rest\<close> is \<open>str.slice(i)\<close>,
  \<open>token\<close> starts as the single character \<open>str[i]\<close>, and the first symbol that \<open>rest\<close>
  starts with replaces it and ends the loop.
\<close>

fun find_symbol :: "string list \<Rightarrow> string \<Rightarrow> string \<Rightarrow> string" where
  "find_symbol [] rest token = token"
| "find_symbol (nit # nits) rest token =
     (if prefix nit rest then nit else find_symbol nits rest token)"

text \<open>
  The token at position \<open>i\<close> (used only for \<open>i\<close> below the length of the input) and
  the amount by which \<open>i\<close> is then incremented. For an array the \<open>for\<close> loop is left at
  once, so the token is the element itself.
\<close>

definition token_at :: "ShuntingYard \<Rightarrow> input \<Rightarrow> nat \<Rightarrow> string" where
  "token_at this str i =
     (case str of
        Str s \<Rightarrow> find_symbol (op_tokens this) (drop i s) [s ! i]
      | Arr ts \<Rightarrow> ts ! i)"

definition increment :: "input \<Rightarrow> string \<Rightarrow> nat" where
  "increment str token = (case str of Str s \<Rightarrow> length token | Arr ts \<Rightarrow> 1)"

text \<open>
  The loop of the right-parenthesis branch:
  \<open>while ((operator = stack.pop()) && !this.isLeftPara(operator))\<close>. It returns the last
  value of \<open>operator\<close> (\<open>None\<close> when the stack ran empty) with the stack and the output.
  An empty string popped from the stack is falsy and ends the loop as well.
\<close>

function pop_to_left_para ::
  "ShuntingYard \<Rightarrow> string list \<Rightarrow> string list \<Rightarrow> string option \<times> string list \<times> string list"
where
  "pop_to_left_para this stk out =
     (if stk = [] then (None, stk, out)
      else
        (let operator = last stk; stk' = butlast stk
         in if operator \<noteq> [] \<and> \<not> isLeftPara operator
            then pop_to_left_para this stk'
                   (if \<not> isFunction this operator then out @ [operator] else out)
            else (Some operator, stk', out)))"
  by pat_completeness auto
termination
  by (relation "measure (\<lambda>(this, stk, out). length stk)") auto

text \<open>
  The loop of the operator branch. \<open>this.operators[token]\<close> and
  \<open>this.operators[stack[stack.length-1]]\<close> are property reads. When both are operator
  descriptors the precedence test decides; when either is undefined the loop ends. A
  value inherited from \<open>Object.prototype\<close> is no descriptor: it has no precedence, both
  comparisons against it are false, and the loop ends too.
\<close>

function pop_operators ::
  "ShuntingYard \<Rightarrow> string \<Rightarrow> string list \<Rightarrow> string list \<Rightarrow> string list \<times> string list"
where
  "pop_operators this token stk out =
     (if stk = [] then (stk, out)
      else
        (case (get_property (operators this) token,
               get_property (operators this) (last stk)) of
           (Own thisOperator, Own operator) \<Rightarrow>
             if (leftAssoc thisOperator \<and> lessThenEqual thisOperator operator)
                \<or> lessThen thisOperator operator
             then pop_operators this token (butlast stk) (out @ [last stk])
             else (stk, out)
         | _ \<Rightarrow> (stk, out)))"
  by pat_completeness auto
termination
  by (relation "measure (\<lambda>(this, token, stk, out). length stk)") auto

text \<open>
  The loop after the input is exhausted: every remaining stack entry is moved to the
  output, and a left parenthesis among them is an error.
\<close>

function drain :: "string list \<Rightarrow> string list \<Rightarrow> error + string list" where
  "drain stk out =
     (if stk = [] then Inr out
      else
        (let token = last stk
         in if isLeftPara token then Inl (SyntaxError ''Too many opening parenthesis'')
            else drain (butlast stk) (out @ [token])))"
  by pat_completeness auto
termination
  by (relation "measure (\<lambda>(stk, out). length stk)") auto

text \<open>
  \<open>output[output.length - 1] += token\<close>. On an empty array this writes a property named
  \<open>-1\<close>, which is not an element: the elements of the array are unchanged.
\<close>

definition append_to_last :: "string list \<Rightarrow> string \<Rightarrow> string list" where
  "append_to_last out token = (if out = [] then out else butlast out @ [last out @ token])"

text \<open>
  The body of the main loop from the test of \<open>sign\<close> on, for a token that is not a single
  space. The result is the state after the iteration, or the error thrown. In the
  sign-folding case the iteration ends with \<open>continue\<close>, so \<open>lastToken\<close> keeps its value.
\<close>

definition fold_sign :: "pstate \<Rightarrow> string \<Rightarrow> string \<times> pstate" where
  "fold_sign st token =
     (case sign st of
        None \<Rightarrow> (token, st)
      | Some s \<Rightarrow> if s \<noteq> [] then (s @ token, st\<lparr>sign := None\<rparr>) else (token, st))"

definition classify :: "ShuntingYard \<Rightarrow> pstate \<Rightarrow> string \<Rightarrow> error + pstate" where
  "classify this st token =
     (if isLeftPara token then
        Inr (st\<lparr>stack := stack st @ [token], lastToken := Some token\<rparr>)
      else if isFunction this token then
        Inr (st\<lparr>stack := stack st @ [token], lastToken := Some token\<rparr>)
      else if isRightPara token then
        (case pop_to_left_para this (stack st) (output' st) of
           (operator, stk, out) \<Rightarrow>
             if operator = None then Inl (SyntaxError ''Too many closing parenthesis'')
             else Inr (st\<lparr>stack := stk, output' := out, lastToken := Some token\<rparr>))
      else if isOperator this token then
        (if \<not> truthy (lastToken st) \<or> lastToken st = Some ''(''
         then Inr (st\<lparr>sign := Some token\<rparr>)
         else
           (case pop_operators this token (stack st) (output' st) of
              (stk, out) \<Rightarrow>
                Inr (st\<lparr>stack := stk @ [token], output' := out, lastToken := Some token\<rparr>)))
      else
        (if \<not> truthy (lastToken st) \<or> lastToken st = Some ''(''
            \<or> (case lastToken st of Some t \<Rightarrow> isOperator this t | None \<Rightarrow> False)
         then Inr (st\<lparr>output' := output' st @ [token], lastToken := Some token\<rparr>)
         else Inr (st\<lparr>output' := append_to_last (output' st) token, lastToken := Some token\<rparr>)))"

definition process_token :: "ShuntingYard \<Rightarrow> pstate \<Rightarrow> string \<Rightarrow> error + pstate" where
  "process_token this st token =
     (case fold_sign st token of (token', st') \<Rightarrow> classify this st' token')"

text \<open>
  The main loop. The position advances by the length of the token, which is zero when
  the empty string is a registered symbol and matches: then the loop never ends, which
  is the value \<open>None\<close>.
\<close>

partial_function (option) parse_loop ::
  "ShuntingYard \<Rightarrow> input \<Rightarrow> nat \<Rightarrow> pstate \<Rightarrow> (error + string list) option"
where
  "parse_loop this str i st =
     (if i < input_length str then
        (let token = token_at this str i;
             i' = i + increment str token
         in if token = '' '' then parse_loop this str i' st
            else
              (case process_token this st token of
                 Inl e \<Rightarrow> Some (Inl e)
               | Inr st' \<Rightarrow> parse_loop this str i' st'))
      else Some (drain (stack st) (output' st)))"

definition parse :: "ShuntingYard \<Rightarrow> input \<Rightarrow> (error + string list) option" where
  "parse this str = parse_loop this str 0 initial"

section \<open>The evaluator\<close>

text \<open>
  \<open>stack.splice(-n)\<close> removes the elements from a start index to the end and returns
  them in order. The start index is the length minus \<open>n\<close>, or zero when that is negative,
  for a positive \<open>n\<close>. For \<open>n = 0\<close> the argument is zero and the start index is zero,
  and for a negative \<open>n\<close> the start index is \<open>-n\<close>, capped by the length. The result
  is the remaining array and the removed elements.
\<close>

definition splice_from :: "'a list \<Rightarrow> int \<Rightarrow> 'a list \<times> 'a list" where
  "splice_from xs start =
     (let len = int (length xs);
          actualStart = nat (if start < 0 then max (len + start) 0 else min start len)
      in (take actualStart xs, drop actualStart xs))"

text \<open>
  \<open>this.operators[token] || this.functions[token]\<close>: the first truthy one of the two
  property reads.
\<close>

definition lookup :: "ShuntingYard \<Rightarrow> string \<Rightarrow> Operator property" where
  "lookup this token =
     (case get_property (operators this) token of
        Absent \<Rightarrow> get_property (functions' this) token
      | found \<Rightarrow> found)"

definition literal :: "ShuntingYard \<Rightarrow> string \<Rightarrow> jsval" where
  "literal this token = (if parse_raw this then JStr token else JNum (parseFloat token))"

text \<open>
  One iteration of the loop of \<open>resolveRpn\<close>. A value inherited from
  \<open>Object.prototype\<close> is truthy but has no \<open>method\<close>, so \<open>op.method.apply\<close> throws a
  \<open>TypeError\<close>.
\<close>

definition rpn_step :: "ShuntingYard \<Rightarrow> jsval list \<Rightarrow> string \<Rightarrow> error + jsval list" where
  "rpn_step this stk token =
     (case lookup this token of
        Own op \<Rightarrow>
          (case splice_from stk (- params op) of
             (rest, args) \<Rightarrow> Inr (rest @ [method' op args]))
      | Inherited \<Rightarrow> Inl TypeError
      | Absent \<Rightarrow> Inr (stk @ [literal this token]))"

fun rpn_loop :: "ShuntingYard \<Rightarrow> string list \<Rightarrow> jsval list \<Rightarrow> error + jsval list" where
  "rpn_loop this [] stk = Inr stk"
| "rpn_loop this (token # arr) stk =
     (case rpn_step this stk token of
        Inl e \<Rightarrow> Inl e
      | Inr stk' \<Rightarrow> rpn_loop this arr stk')"

text \<open>\<open>stack[0]\<close> is \<open>undefined\<close> for an empty array.\<close>

definition first_element :: "jsval list \<Rightarrow> jsval" where
  "first_element stk = (case stk of [] \<Rightarrow> JUndefined | v # rest \<Rightarrow> v)"

definition resolveRpn :: "ShuntingYard \<Rightarrow> string list \<Rightarrow> error + jsval" where
  "resolveRpn this arr =
     (case rpn_loop this arr [] of
        Inl e \<Rightarrow> Inl e
      | Inr stk \<Rightarrow> Inr (first_element stk))"

definition resolve :: "ShuntingYard \<Rightarrow> input \<Rightarrow> (error + jsval) option" where
  "resolve this str =
     (case parse this str of
        None \<Rightarrow> None
      | Some (Inl e) \<Rightarrow> Some (Inl e)
      | Some (Inr rpn) \<Rightarrow> Some (resolveRpn this rpn))"

section \<open>Instances and reference definitions used in the statements\<close>

text \<open>\<open>new ShuntingYard()\<close>: the instance with the default tables.\<close>

definition default_instance :: "coercions \<Rightarrow> ShuntingYard" where
  "default_instance c = constructor c no_options"

text \<open>
  A fixed choice of the two conversions, for the closed instances below. No result
  stated for them depends on this choice.
\<close>

definition sample_coercions :: coercions where
  "sample_coercions = \<lparr>string_to_number = (\<lambda>s. NaN), number_to_string = (\<lambda>n. [])\<rparr>"

text \<open>
  An instance with the default operators and two registered functions, as created by
  \<open>new ShuntingYard({functions: {sin: ..., sinh: ...}})\<close> with descriptors of arity one
  whose behaviours are \<open>Math.sin\<close> and \<open>Math.sinh\<close>.
\<close>

definition Math_sin :: "coercions \<Rightarrow> jsval \<Rightarrow> jsval" where
  "Math_sin c a = JNum (case ToNumber c a of Fin x \<Rightarrow> Fin (sin x) | other \<Rightarrow> NaN)"

definition Math_sinh :: "coercions \<Rightarrow> jsval \<Rightarrow> jsval" where
  "Math_sinh c a = JNum (case ToNumber c a of Fin x \<Rightarrow> Fin (sinh x) | other \<Rightarrow> other)"

definition trig_functions :: "coercions \<Rightarrow> Operator js_object" where
  "trig_functions c =
     [(''sin'', \<lparr>symbol = ''sin'', precedence = 5, associativity = ''left'', params = 1,
                method' = (\<lambda>args. Math_sin c (arg args 0))\<rparr>),
      (''sinh'', \<lparr>symbol = ''sinh'', precedence = 5, associativity = ''left'', params = 1,
                 method' = (\<lambda>args. Math_sinh c (arg args 0))\<rparr>)]"

definition trig_instance :: "coercions \<Rightarrow> ShuntingYard" where
  "trig_instance c =
     constructor c \<lparr>opt_operators = None, opt_functions = Some (trig_functions c),
                    opt_parse_raw = None\<rparr>"

text \<open>
  Reference definition, following the words of the spec: the condition under which the
  operator branch pops the top of the stack. The top is a registered operator, and the
  incoming operator is left-associative with a precedence less than or equal to the
  top's, or has a precedence strictly less than the top's.
\<close>

definition spec_pops :: "ShuntingYard \<Rightarrow> string \<Rightarrow> string \<Rightarrow> bool" where
  "spec_pops this token topmost =
     (case (map_of (operators this) token, map_of (operators this) topmost) of
        (Some thisOperator, Some operator) \<Rightarrow>
          (associativity thisOperator = ''left''
             \<and> precedence thisOperator \<le> precedence operator)
          \<or> precedence thisOperator < precedence operator
      | _ \<Rightarrow> False)"

text \<open>
  Reference definition: the parser state machine fed with a sequence of tokens, each
  element taken as one opaque token (the loop body \<open>process_token\<close> for each in turn),
  followed by the final loop over the stack.
\<close>

fun feed_tokens :: "ShuntingYard \<Rightarrow> pstate \<Rightarrow> string list \<Rightarrow> error + string list" where
  "feed_tokens this st [] = drain (stack st) (output' st)"
| "feed_tokens this st (token # tokens) =
     (case process_token this st token of
        Inl e \<Rightarrow> Inl e
      | Inr st' \<Rightarrow> feed_tokens this st' tokens)"

text \<open>
  Reference definition: the tokenizer on its own, that is, the tokens that the main loop
  reads from a string from position \<open>i\<close> on. The result is \<open>None\<close> when an empty symbol
  matches at some position, where the loop stops advancing.
\<close>

function tokens_from :: "ShuntingYard \<Rightarrow> string \<Rightarrow> nat \<Rightarrow> string list option" where
  "tokens_from this s i =
     (if i < length s then
        (let token = token_at this (Str s) i
         in if token = [] then None
            else map_option (\<lambda>tokens. token # tokens) (tokens_from this s (i + length token)))
      else Some [])"
  by pat_completeness auto
termination
  by (relation "measure (\<lambda>(this, s, i). length s - i)") (auto simp: neq_Nil_conv)




text \<open>The number of left parentheses on the operator stack, and the error of a result.\<close>

definition open_paras :: "string list \<Rightarrow> nat" where
  "open_paras stk = length (filter (\<lambda>t. t = ''('') stk)"


declare pop_to_left_para.simps [simp del]
declare pop_operators.simps [simp del]
declare drain.simps [simp del]
declare tokens_from.simps [simp del]

section \<open>Lemmas about the host model and the loops\<close>

lemma pop_operators_unfold:
  "pop_operators this token stk out =
     (if stk \<noteq> [] \<and> spec_pops this token (last stk)
      then pop_operators this token (butlast stk) (out @ [last stk]) else (stk, out))"
  by (subst pop_operators.simps)
     (auto simp: spec_pops_def get_property_def leftAssoc_def lessThen_def lessThenEqual_def
           split: option.splits property.splits)

lemma pop_operators_spec:
  "\<exists>rest popped. stk = rest @ popped
     \<and> pop_operators this token stk out = (rest, out @ rev popped)
     \<and> (\<forall>p\<in>set popped. spec_pops this token p)
     \<and> (rest = [] \<or> \<not> spec_pops this token (last rest))"
proof (induction stk arbitrary: out rule: rev_induct)
  case Nil
  show ?case by (simp add: pop_operators_unfold)
next
  case (snoc x xs)
  show ?case
  proof (cases "spec_pops this token x")
    case True
    from snoc.IH [of "out @ [x]"] obtain rest popped where
      h: "xs = rest @ popped" "pop_operators this token xs (out @ [x]) = (rest, (out @ [x]) @ rev popped)"
         "\<forall>p\<in>set popped. spec_pops this token p" "rest = [] \<or> \<not> spec_pops this token (last rest)"
      by blast
    have "pop_operators this token (xs @ [x]) out = (rest, out @ rev (popped @ [x]))"
      using True h(2) by (subst pop_operators_unfold) simp
    with h(1,3,4) True show ?thesis
      by (intro exI [of _ rest] exI [of _ "popped @ [x]"]) auto
  next
    case False
    then have "pop_operators this token (xs @ [x]) out = (xs @ [x], out)"
      by (subst pop_operators_unfold) simp
    with False show ?thesis
      by (intro exI [of _ "xs @ [x]"] exI [of _ "[]"]) auto
  qed
qed

subsection \<open>Evaluation on the default instance\<close>

lemma default_fields:
  "operators (default_instance c) = default_operators c"
  "functions' (default_instance c) = []"
  "parse_raw (default_instance c) = False"
  by (simp_all add: default_instance_def constructor_def no_options_def)

lemma keys_default_operators: "Object_keys (default_operators c) = [''+'', ''-'', ''*'', ''/'', ''^'']"
  by (simp add: default_operators_def Object_keys_def is_array_index_def is_digit_def)

lemma keys_empty: "Object_keys [] = []"
  by (simp add: Object_keys_def)

lemma op_tokens_default: "op_tokens (default_instance c) = [''+'', ''-'', ''*'', ''/'', ''^'']"
  by (simp add: op_tokens_def default_fields keys_default_operators keys_empty)

lemma isOperator_default:
  "isOperator (default_instance c) t = (t \<in> set [''+'', ''-'', ''*'', ''/'', ''^''])"
  by (simp add: isOperator_def default_fields keys_default_operators)

lemma isFunction_default: "isFunction (default_instance c) t = False"
  by (simp add: isFunction_def default_fields keys_empty)

lemma get_default_operators:
  "get_property (default_operators c) ''+'' =
     Own \<lparr>symbol = ''+'', precedence = 2, associativity = ''left'', params = 2,
          method' = (\<lambda>args. js_add c (arg args 0) (arg args 1))\<rparr>"
  "get_property (default_operators c) ''-'' =
     Own \<lparr>symbol = ''-'', precedence = 2, associativity = ''left'', params = 2,
          method' = (\<lambda>args. js_sub c (arg args 0) (arg args 1))\<rparr>"
  "get_property (default_operators c) ''*'' =
     Own \<lparr>symbol = ''*'', precedence = 3, associativity = ''left'', params = 2,
          method' = (\<lambda>args. js_mul c (arg args 0) (arg args 1))\<rparr>"
  "get_property (default_operators c) ''/'' =
     Own \<lparr>symbol = ''/'', precedence = 3, associativity = ''left'', params = 2,
          method' = (\<lambda>args. js_div c (arg args 0) (arg args 1))\<rparr>"
  "get_property (default_operators c) ''^'' =
     Own \<lparr>symbol = ''^'', precedence = 4, associativity = ''right'', params = 2,
          method' = (\<lambda>args. Math_pow c (arg args 0) (arg args 1))\<rparr>"
  by (simp_all add: default_operators_def get_property_def)

lemma get_default_operators_other:
  "k \<notin> set [''+'', ''-'', ''*'', ''/'', ''^''] \<Longrightarrow>
   get_property (default_operators c) k =
     (if k \<in> set Object_prototype_keys then Inherited else Absent)"
  by (simp add: default_operators_def get_property_def)

lemma get_empty: "get_property [] k = (if k \<in> set Object_prototype_keys then Inherited else Absent)"
  by (simp add: get_property_def)

lemmas scan_simps = token_at_def op_tokens_default input_length_def increment_def Let_def

lemmas token_simps = process_token_def fold_sign_def classify_def isLeftPara_def isRightPara_def
  isOperator_default isFunction_default truthy_def append_to_last_def
  pop_operators.simps pop_to_left_para.simps drain.simps
  default_fields get_default_operators get_default_operators_other get_empty Object_prototype_keys_def
  leftAssoc_def lessThen_def lessThenEqual_def

lemmas rpn_simps = resolveRpn_def rpn_step_def lookup_def literal_def splice_from_def
  first_element_def arg_def default_fields get_default_operators get_default_operators_other
  get_empty Object_prototype_keys_def

lemmas number_simps = js_add_def js_sub_def js_mul_def js_div_def Math_pow_def ToNumber_def
  is_string_def num_sub_def is_integral_def parseFloat_def strip_sign_def is_white_def is_digit_def
  digits_value_def digit_value_def exponent_part_def

lemma parse_3_4_2:
  "parse (default_instance c) (Str ''3+4*2'') = Some (Inr [''3'', ''4'', ''2'', ''*'', ''+''])"
  unfolding parse_def initial_def
  by (subst parse_loop.simps, simp add: scan_simps token_simps)+

lemma resolveRpn_3_4_2:
  "resolveRpn (default_instance c) [''3'', ''4'', ''2'', ''*'', ''+''] = Inr (JNum (Fin 11))"
  by (simp add: rpn_simps number_simps)

lemma resolve_3_4_2: "resolve (default_instance c) (Str ''3+4*2'') = Some (Inr (JNum (Fin 11)))"
  by (simp add: resolve_def parse_3_4_2 resolveRpn_3_4_2)

lemma parse_8_3_2:
  "parse (default_instance c) (Str ''8-3-2'') = Some (Inr [''8'', ''3'', ''-'', ''2'', ''-''])"
  unfolding parse_def initial_def
  by (subst parse_loop.simps, simp add: scan_simps token_simps)+

lemma resolveRpn_8_3_2:
  "resolveRpn (default_instance c) [''8'', ''3'', ''-'', ''2'', ''-''] = Inr (JNum (Fin 3))"
  by (simp add: rpn_simps number_simps)

lemma parse_2_3_2:
  "parse (default_instance c) (Str ''2^3^2'') = Some (Inr [''2'', ''3'', ''2'', ''^'', ''^''])"
  unfolding parse_def initial_def
  by (subst parse_loop.simps, simp add: scan_simps token_simps)+

lemma resolveRpn_2_3_2:
  "resolveRpn (default_instance c) [''2'', ''3'', ''2'', ''^'', ''^''] = Inr (JNum (Fin 512))"
  by (simp add: rpn_simps number_simps)

lemma parse_m5_3:
  "parse (default_instance c) (Str ''-5+3'') = Some (Inr [''-5'', ''3'', ''+''])"
  unfolding parse_def initial_def
  by (subst parse_loop.simps, simp add: scan_simps token_simps)+

lemma resolveRpn_m5_3:
  "resolveRpn (default_instance c) [''-5'', ''3'', ''+''] = Inr (JNum (Fin (- 2)))"
  by (simp add: rpn_simps number_simps)

lemma resolveRpn_underflow:
  "resolveRpn (default_instance c) [''1'', ''+''] = Inr (JNum NaN)"
  by (simp add: rpn_simps number_simps)

lemma resolveRpn_constructor:
  "resolveRpn (default_instance c) [''constructor''] = Inl TypeError"
  by (simp add: rpn_simps number_simps)




lemma parse_constructor:
  "parse (default_instance c) (Str ''constructor'') = Some (Inr [''constructor''])"
  unfolding parse_def initial_def
  by (subst parse_loop.simps, simp add: scan_simps token_simps)+

lemma parse_array_space:
  "parse (default_instance c) (Arr [''1'', '' '', ''2'']) = Some (Inr [''12''])"
  unfolding parse_def initial_def
  by (subst parse_loop.simps, simp add: scan_simps token_simps)+

lemma feed_array_space:
  "feed_tokens (default_instance c) initial [''1'', '' '', ''2''] = Inr [''1 2'']"
  by (simp add: initial_def token_simps)

subsection \<open>General lemmas\<close>

lemma find_symbol_split:
  "syms = before @ nit # after \<Longrightarrow> prefix nit rest \<Longrightarrow> \<forall>b\<in>set before. \<not> prefix b rest
     \<Longrightarrow> find_symbol syms rest tok = nit"
  by (induction before arbitrary: syms) auto

lemma find_symbol_none:
  "\<forall>nit\<in>set syms. \<not> prefix nit rest \<Longrightarrow> find_symbol syms rest tok = tok"
  by (induction syms) auto

lemma pop_to_left_para_Nil: "pop_to_left_para this [] out = (None, [], out)"
  by (subst pop_to_left_para.simps) simp

lemma pop_to_left_para_snoc:
  "pop_to_left_para this (xs @ [x]) out =
     (if x \<noteq> [] \<and> \<not> isLeftPara x
      then pop_to_left_para this xs (if \<not> isFunction this x then out @ [x] else out)
      else (Some x, xs, out))"
  by (subst pop_to_left_para.simps) (simp add: Let_def)

lemma pop_to_left_para_emits:
  "pop_to_left_para this stk out = (r, stk', out') \<Longrightarrow>
   \<exists>popped. out' = out @ filter (\<lambda>t. \<not> isFunction this t) (rev popped)
     \<and> (case r of None \<Rightarrow> stk = popped \<and> stk' = [] | Some t \<Rightarrow> stk = stk' @ t # popped)"
proof (induction stk arbitrary: out rule: rev_induct)
  case Nil
  then show ?case by (auto simp: pop_to_left_para_Nil)
next
  case (snoc x xs)
  show ?case
  proof (cases "x \<noteq> [] \<and> \<not> isLeftPara x")
    case False
    with snoc.prems have "r = Some x" "stk' = xs" "out' = out"
      by (auto simp: pop_to_left_para_snoc)
    then show ?thesis by (intro exI [of _ "[]"]) simp
  next
    case True
    define out2 where "out2 = out @ filter (\<lambda>t. \<not> isFunction this t) [x]"
    have "(if \<not> isFunction this x then out @ [x] else out) = out2"
      by (simp add: out2_def)
    with True snoc.prems have "pop_to_left_para this xs out2 = (r, stk', out')"
      by (simp add: pop_to_left_para_snoc)
    from snoc.IH [OF this] obtain popped where
      h: "out' = out2 @ filter (\<lambda>t. \<not> isFunction this t) (rev popped)"
         "case r of None \<Rightarrow> xs = popped \<and> stk' = [] | Some t \<Rightarrow> xs = stk' @ t # popped"
      by blast
    have "out' = out @ filter (\<lambda>t. \<not> isFunction this t) (rev (popped @ [x]))"
      using h(1) by (simp add: out2_def)
    with h(2) show ?thesis
      by (intro exI [of _ "popped @ [x]"]) (auto split: option.splits)
  qed
qed

lemma drain_Nil: "drain [] out = Inr out"
  by (subst drain.simps) simp

lemma drain_snoc:
  "drain (xs @ [x]) out =
     (if isLeftPara x then Inl (SyntaxError ''Too many opening parenthesis'')
      else drain xs (out @ [x]))"
  by (subst drain.simps) (simp add: Let_def)

lemma drain_balanced: "''('' \<notin> set stk \<Longrightarrow> drain stk out = Inr (out @ rev stk)"
  by (induction stk arbitrary: out rule: rev_induct)
     (auto simp: drain_Nil drain_snoc isLeftPara_def)






lemma classify_right_para:
  assumes "\<not> isFunction this '')''" "classify this st '')'' = Inr st'"
  shows "\<exists>t popped. stack st = stack st' @ t # popped
           \<and> output' st' = output' st @ filter (\<lambda>x. \<not> isFunction this x) (rev popped)
           \<and> sign st' = sign st \<and> lastToken st' = Some '')''"
proof -
  obtain r stk out where p: "pop_to_left_para this (stack st) (output' st) = (r, stk, out)"
    by (cases "pop_to_left_para this (stack st) (output' st)") auto
  with assms have r: "r \<noteq> None" and st': "st' = st\<lparr>stack := stk, output' := out, lastToken := Some '')''\<rparr>"
    by (auto simp: classify_def isLeftPara_def isRightPara_def split: if_splits)
  from r obtain t where t: "r = Some t" by auto
  from pop_to_left_para_emits [OF p] t obtain popped where
    "out = output' st @ filter (\<lambda>x. \<not> isFunction this x) (rev popped)"
    "stack st = stk @ t # popped"
    by auto
  with st' show ?thesis by auto
qed

subsection \<open>Evaluation on the instance with two functions\<close>

lemma trig_fields:
  "operators (trig_instance c) = default_operators c"
  "functions' (trig_instance c) = trig_functions c"
  "parse_raw (trig_instance c) = False"
  by (simp_all add: trig_instance_def constructor_def)

lemma keys_trig_functions: "Object_keys (trig_functions c) = [''sin'', ''sinh'']"
  by (simp add: trig_functions_def Object_keys_def is_array_index_def is_digit_def)

lemma op_tokens_trig:
  "op_tokens (trig_instance c) = [''+'', ''-'', ''*'', ''/'', ''^'', ''sin'', ''sinh'']"
  by (simp add: op_tokens_def trig_fields keys_default_operators keys_trig_functions)

lemma isOperator_trig:
  "isOperator (trig_instance c) t = (t \<in> set [''+'', ''-'', ''*'', ''/'', ''^''])"
  by (simp add: isOperator_def trig_fields keys_default_operators)

lemma isFunction_trig: "isFunction (trig_instance c) t = (t \<in> set [''sin'', ''sinh''])"
  by (simp add: isFunction_def trig_fields keys_trig_functions)

lemmas trig_scan_simps = token_at_def op_tokens_trig input_length_def increment_def Let_def

lemmas trig_token_simps = process_token_def fold_sign_def classify_def isLeftPara_def
  isRightPara_def isOperator_trig isFunction_trig truthy_def append_to_last_def
  pop_operators.simps pop_to_left_para.simps drain.simps
  trig_fields get_default_operators get_default_operators_other get_empty
  Object_prototype_keys_def leftAssoc_def lessThen_def lessThenEqual_def

lemma parse_sin_1:
  "parse (trig_instance c) (Str ''sin(1)'') = Some (Inr [''1'', ''sin''])"
  unfolding parse_def initial_def
  by (subst parse_loop.simps, simp add: trig_scan_simps trig_token_simps)+

lemma token_at_sinh: "token_at (trig_instance c) (Str ''sinh(1)'') 0 = ''sin''"
  by (simp add: trig_scan_simps)

subsection \<open>The evaluator and the two entry modes\<close>

lemma splice_from_neg:
  "1 \<le> n \<Longrightarrow>
     splice_from xs (- n) = (take (length xs - nat n) xs, drop (length xs - nat n) xs)"
proof -
  assume n: "1 \<le> n"
  have "nat (max (int (length xs) + - n) 0) = length xs - nat n"
    using n by (simp add: max_def nat_diff_distrib')
  with n show ?thesis
    by (simp add: splice_from_def Let_def)
qed

lemma lookup_Own_iff:
  "lookup this token = Own op \<longleftrightarrow>
     map_of (operators this) token = Some op
     \<or> (map_of (operators this) token = None \<and> token \<notin> set Object_prototype_keys
        \<and> map_of (functions' this) token = Some op)"
  by (auto simp: lookup_def get_property_def split: option.splits property.splits if_splits)

lemma rpn_step_Own:
  "lookup this token = Own op \<Longrightarrow> 1 \<le> params op \<Longrightarrow>
     rpn_step this stk token =
       Inr (take (length stk - nat (params op)) stk
            @ [method' op (drop (length stk - nat (params op)) stk)])"
  by (simp add: rpn_step_def splice_from_neg)

lemma resolve_8_3_2: "resolve (default_instance c) (Str ''8-3-2'') = Some (Inr (JNum (Fin 3)))"
  by (simp add: resolve_def parse_8_3_2 resolveRpn_8_3_2)

lemma resolve_2_3_2: "resolve (default_instance c) (Str ''2^3^2'') = Some (Inr (JNum (Fin 512)))"
  by (simp add: resolve_def parse_2_3_2 resolveRpn_2_3_2)

lemma resolve_m5_3: "resolve (default_instance c) (Str ''-5+3'') = Some (Inr (JNum (Fin (- 2))))"
  by (simp add: resolve_def parse_m5_3 resolveRpn_m5_3)

lemma process_token_no_sign:
  "\<not> truthy (sign st) \<Longrightarrow> process_token this st token = classify this st token"
  by (auto simp: process_token_def fold_sign_def truthy_def split: option.splits)

lemma process_token_sign:
  "sign st = Some s \<Longrightarrow> s \<noteq> [] \<Longrightarrow>
     process_token this st token = classify this (st\<lparr>sign := None\<rparr>) (s @ token)"
  by (simp add: process_token_def fold_sign_def)

lemma classify_sign_pending:
  assumes "\<not> isLeftPara token" "\<not> isRightPara token" "\<not> isFunction this token"
    "\<not> truthy (sign st)" "token \<noteq> []"
  shows "(\<exists>st'. classify this st token = Inr st' \<and> truthy (sign st'))
           \<longleftrightarrow> (\<not> truthy (lastToken st) \<or> lastToken st = Some ''('') \<and> isOperator this token"
  using assms by (auto simp: classify_def truthy_def split: prod.splits option.splits)

lemma classify_sign_held:
  assumes "\<not> isLeftPara token" "\<not> isRightPara token" "\<not> isFunction this token"
    "\<not> truthy (lastToken st) \<or> lastToken st = Some ''(''" "isOperator this token"
  shows "classify this st token = Inr (st\<lparr>sign := Some token\<rparr>)"
  using assms by (auto simp: classify_def)

lemma parse_loop_Arr:
  "parse_loop this (Arr ts) i st
     = Some (feed_tokens this st (filter (\<lambda>t. t \<noteq> '' '') (drop i ts)))"
proof (induction "length ts - i" arbitrary: i st)
  case 0
  then show ?case
    by (subst parse_loop.simps) (simp add: input_length_def)
next
  case (Suc n)
  then have i: "i < length ts" by simp
  then have d: "drop i ts = ts ! i # drop (Suc i) ts"
    by (simp add: Cons_nth_drop_Suc)
  from Suc have n: "n = length ts - Suc i" by simp
  show ?case
  proof (cases "ts ! i = '' ''")
    case True
    with i d Suc.hyps(1) [OF n] show ?thesis
      by (subst parse_loop.simps)
         (simp add: input_length_def token_at_def increment_def)
  next
    case False
    with i d Suc.hyps(1) [OF n] show ?thesis
      by (subst parse_loop.simps)
         (simp add: input_length_def token_at_def increment_def split: sum.splits)
  qed
qed

lemma parse_loop_Str:
  "tokens_from this s i = Some toks \<Longrightarrow>
   parse_loop this (Str s) i st
     = Some (feed_tokens this st (filter (\<lambda>t. t \<noteq> '' '') toks))"
proof (induction this s i arbitrary: toks st rule: tokens_from.induct)
  case (1 this s i)
  show ?case
  proof (cases "i < length s")
    case False
    with "1.prems" have "toks = []"
      by (subst (asm) tokens_from.simps) simp
    with False show ?thesis
      by (subst parse_loop.simps) (simp add: input_length_def)
  next
    case True
    define token where "token = token_at this (Str s) i"
    from True "1.prems" have ne: "token \<noteq> []"
      by (subst (asm) tokens_from.simps) (auto simp: token_def Let_def split: if_splits)
    from True "1.prems" ne obtain rest where
      rest: "tokens_from this s (i + length token) = Some rest" "toks = token # rest"
      by (subst (asm) tokens_from.simps) (auto simp: token_def Let_def)
    note IH = "1.IH" [OF True token_def ne rest(1)]
    show ?thesis
    proof (cases "token = '' ''")
      case sp: True
      with True rest(2) IH [of st] show ?thesis
        by (subst parse_loop.simps)
           (simp add: input_length_def increment_def token_def [symmetric])
    next
      case nsp: False
      with True rest(2) IH show ?thesis
        by (subst parse_loop.simps)
           (simp add: input_length_def increment_def token_def [symmetric] split: sum.splits)
    qed
  qed
qed

lemma find_symbol_cases: "find_symbol syms rest tok \<in> set syms \<or> find_symbol syms rest tok = tok"
  by (induction syms) auto

lemma token_at_nonempty:
  "[] \<notin> set (op_tokens this) \<Longrightarrow> token_at this (Str s) i \<noteq> []"
  using find_symbol_cases [of "op_tokens this" "drop i s" "[s ! i]"]
  by (auto simp: token_at_def)

lemma tokens_from_total:
  "[] \<notin> set (op_tokens this) \<Longrightarrow> \<exists>toks. tokens_from this s i = Some toks"
proof (induction "length s - i" arbitrary: i rule: less_induct)
  case less
  show ?case
  proof (cases "i < length s")
    case False
    then show ?thesis by (subst tokens_from.simps) simp
  next
    case True
    let ?t = "token_at this (Str s) i"
    have ne: "?t \<noteq> []" using less.prems by (rule token_at_nonempty)
    then have "length s - (i + length ?t) < length s - i"
      using True by (cases ?t) auto
    from less.hyps [OF this less.prems] obtain rest where
      "tokens_from this s (i + length ?t) = Some rest" by blast
    with True ne show ?thesis
      by (subst tokens_from.simps) (simp add: Let_def)
  qed
qed

lemma lookup_Absent_iff:
  "lookup this token = Absent \<longleftrightarrow>
     map_of (operators this) token = None \<and> map_of (functions' this) token = None
     \<and> token \<notin> set Object_prototype_keys"
  by (auto simp: lookup_def get_property_def split: option.splits property.splits if_splits)

lemma rpn_step_literal:
  "map_of (operators this) token = None \<Longrightarrow> map_of (functions' this) token = None \<Longrightarrow>
   token \<notin> set Object_prototype_keys \<Longrightarrow>
     rpn_step this stk token
       = Inr (stk @ [if parse_raw this then JStr token else JNum (parseFloat token)])"
  by (simp add: rpn_step_def literal_def lookup_Absent_iff [THEN iffD2])

lemma rpn_loop_literals:
  "\<forall>t\<in>set ts. lookup this t = Absent \<Longrightarrow>
     rpn_loop this ts stk = Inr (stk @ map (literal this) ts)"
  by (induction ts arbitrary: stk) (auto simp: rpn_step_def)

subsection \<open>Balance of parentheses\<close>




lemma open_paras_simps [simp]:
  "open_paras [] = 0"
  "open_paras (xs @ ys) = open_paras xs + open_paras ys"
  "open_paras (x # xs) = (if x = ''('' then Suc (open_paras xs) else open_paras xs)"
  by (simp_all add: open_paras_def)













section \<open>The claims\<close>

text \<open>
  C1. In the operator branch of \<open>parse\<close>, that is, for a token that is a registered
  operator (and not a parenthesis or a function name, which are tested first) and is not
  held back as a sign (the previous token is non-empty and not a left parenthesis), the
  parser pops the operator stack to the output while the stack is non-empty and its top
  is a registered operator such that the incoming operator is left-associative with
  precedence at most the top's, or has precedence strictly below the top's; then it
  pushes the incoming operator. Here \<open>popped\<close> are the entries removed from the end of
  the stack, each of which meets the condition, \<open>rest\<close> is what remains, whose last entry
  (if any) does not meet it, and the output receives the popped entries in the order of
  popping. With the default table, \<open>parse("3+4*2")\<close> is \<open>["3","4","2","*","+"]\<close> and
  \<open>resolve("3+4*2")\<close> is 11.
\<close>

theorem C1_operator_branch:
  "(isOperator this token \<and> \<not> isLeftPara token \<and> \<not> isRightPara token
      \<and> \<not> isFunction this token \<and> truthy (lastToken st) \<and> lastToken st \<noteq> Some ''(''
     \<longrightarrow> (\<exists>rest popped. stack st = rest @ popped
            \<and> classify this st token =
                Inr (st\<lparr>stack := rest @ [token], output' := output' st @ rev popped,
                        lastToken := Some token\<rparr>)
            \<and> (\<forall>p\<in>set popped. spec_pops this token p)
            \<and> (rest = [] \<or> \<not> spec_pops this token (last rest))))
   \<and> parse (default_instance c) (Str ''3+4*2'') = Some (Inr [''3'', ''4'', ''2'', ''*'', ''+''])
   \<and> resolve (default_instance c) (Str ''3+4*2'') = Some (Inr (JNum (Fin 11)))"
proof -
  have "\<exists>rest popped. stack st = rest @ popped
            \<and> classify this st token =
                Inr (st\<lparr>stack := rest @ [token], output' := output' st @ rev popped,
                        lastToken := Some token\<rparr>)
            \<and> (\<forall>p\<in>set popped. spec_pops this token p)
            \<and> (rest = [] \<or> \<not> spec_pops this token (last rest))"
    if h: "isOperator this token" "\<not> isLeftPara token" "\<not> isRightPara token"
      "\<not> isFunction this token" "truthy (lastToken st)" "lastToken st \<noteq> Some ''(''"
  proof -
    from pop_operators_spec [of "stack st" this token "output' st"] obtain rest popped where
      p: "stack st = rest @ popped"
         "pop_operators this token (stack st) (output' st) = (rest, output' st @ rev popped)"
         "\<forall>p\<in>set popped. spec_pops this token p"
         "rest = [] \<or> \<not> spec_pops this token (last rest)"
      by blast
    have "classify this st token =
            Inr (st\<lparr>stack := rest @ [token], output' := output' st @ rev popped,
                    lastToken := Some token\<rparr>)"
      using h p(2) by (simp add: classify_def)
    with p(1,3,4) show ?thesis by blast
  qed
  then show ?thesis
    using parse_3_4_2 [of c] resolve_3_4_2 [of c] by blast
qed

theorem C1_operator_branch_witness:
  "isOperator (default_instance sample_coercions) ''-''
   \<and> truthy (Some ''2'')
   \<and> (\<exists>rest popped. [''+'', ''*''] = rest @ popped
        \<and> classify (default_instance sample_coercions)
             \<lparr>output' = [''3'', ''4'', ''2''], stack = [''+'', ''*''], sign = None,
              lastToken = Some ''2''\<rparr> ''-''
            = Inr \<lparr>output' = [''3'', ''4'', ''2''] @ rev popped, stack = rest @ [''-''],
                   sign = None, lastToken = Some ''-''\<rparr>
        \<and> (\<forall>p\<in>set popped. spec_pops (default_instance sample_coercions) ''-'' p)
        \<and> (rest = [] \<or> \<not> spec_pops (default_instance sample_coercions) ''-'' (last rest)))"
  using C1_operator_branch
    [of "default_instance sample_coercions" "''-''"
        "\<lparr>output' = [''3'', ''4'', ''2''], stack = [''+'', ''*''], sign = None,
          lastToken = Some ''2''\<rparr>" sample_coercions]
  by (simp add: isOperator_default isFunction_default isLeftPara_def isRightPara_def truthy_def)

text \<open>
  C2, as stated, fails: the symbol chosen is not the longest one. With the functions
  \<open>sin\<close> and \<open>sinh\<close> registered in this order, the token read at the start of
  \<open>"sinh(1)"\<close> is \<open>sin\<close>, although \<open>sinh\<close> is registered, is a prefix of the input and is
  longer.
\<close>

theorem C2_longest_match_counterexample:
  "token_at (trig_instance sample_coercions) (Str ''sinh(1)'') 0 = ''sin''
   \<and> ''sinh'' \<in> set (op_tokens (trig_instance sample_coercions))
   \<and> prefix ''sinh'' (drop 0 ''sinh(1)'')
   \<and> length ''sin'' < length ''sinh''"
  by (simp add: token_at_sinh op_tokens_trig)

text \<open>
  C2, amended. For a string input and a scan position \<open>i\<close>, the current token is the first
  symbol, in the order of \<open>op_tokens\<close> (the keys of the operator table followed by the keys
  of the function table), that is a prefix of the remaining input; if no registered
  symbol is a prefix, the current token is the single character at that position.
\<close>

theorem C2_first_match:
  "i < length s \<longrightarrow>
     (op_tokens this = before @ nit # after \<and> prefix nit (drop i s)
        \<and> (\<forall>b\<in>set before. \<not> prefix b (drop i s))
      \<longrightarrow> token_at this (Str s) i = nit)
     \<and> ((\<forall>nit\<in>set (op_tokens this). \<not> prefix nit (drop i s))
          \<longrightarrow> token_at this (Str s) i = [s ! i])"
  by (auto simp: token_at_def find_symbol_none intro: find_symbol_split)

theorem C2_first_match_witness:
  "(0::nat) < length ''sinh(1)''
   \<and> op_tokens (trig_instance sample_coercions)
       = [''+'', ''-'', ''*'', ''/'', ''^''] @ ''sin'' # [''sinh'']
   \<and> prefix ''sin'' (drop 0 ''sinh(1)'')
   \<and> token_at (trig_instance sample_coercions) (Str ''sinh(1)'') 0 = ''sin''
   \<and> token_at (default_instance sample_coercions) (Str ''3+4'') 0 = [''3+4'' ! 0]"
  using C2_first_match
      [of 0 "''sinh(1)''" "trig_instance sample_coercions" "[''+'', ''-'', ''*'', ''/'', ''^'']"
          "''sin''" "[''sinh'']"]
    C2_first_match [of 0 "''3+4''" "default_instance sample_coercions"]
  by (simp add: op_tokens_trig op_tokens_default)

text \<open>
  C3, as stated, fails: a function name is emitted to the output. With \<open>sin\<close> registered
  as a function, \<open>parse("sin(1)")\<close> is \<open>["1","sin"]\<close>: the marker is still on the stack
  when the input ends, and the final loop moves it to the output.
\<close>

theorem C3_function_emitted_counterexample:
  "isFunction (trig_instance sample_coercions) ''sin''
   \<and> parse (trig_instance sample_coercions) (Str ''sin(1)'') = Some (Inr [''1'', ''sin''])"
  by (simp add: isFunction_trig parse_sin_1)

text \<open>
  C3, amended. A registered function-name token is pushed onto the operator stack, and
  nothing is emitted to the output at that point. When a right parenthesis is handled
  without error, the entries \<open>popped\<close> above the entry \<open>t\<close> that ends the loop are removed
  from the stack together with \<open>t\<close>, and the output receives exactly those of them that
  are not registered functions, so a function marker popped there is discarded without
  emission. A function marker that is still on the stack when the input is exhausted is
  emitted by the final loop, which moves every remaining entry to the output when no left
  parenthesis is among them.
\<close>

theorem C3_function_marker:
  "(isFunction this token
      \<longrightarrow> classify this st token
            = Inr (st\<lparr>stack := stack st @ [token], lastToken := Some token\<rparr>))
   \<and> (\<not> isFunction this '')'' \<and> classify this st '')'' = Inr st'
      \<longrightarrow> (\<exists>t popped. stack st = stack st' @ t # popped
             \<and> output' st' = output' st @ filter (\<lambda>x. \<not> isFunction this x) (rev popped)))
   \<and> (''('' \<notin> set left \<longrightarrow> drain left queue = Inr (queue @ rev left))"
  using classify_right_para [of this st st'] drain_balanced [of left queue]
  by (auto simp: classify_def)

theorem C3_function_marker_witness:
  "isFunction (trig_instance sample_coercions) ''sin''
   \<and> classify (trig_instance sample_coercions)
        \<lparr>output' = [], stack = [''(''], sign = None, lastToken = Some ''(''\<rparr> ''sin''
       = Inr \<lparr>output' = [], stack = [''('', ''sin''], sign = None, lastToken = Some ''sin''\<rparr>
   \<and> classify (trig_instance sample_coercions)
        \<lparr>output' = [''1''], stack = [''('', ''sin'', ''+''], sign = None, lastToken = Some ''2''\<rparr>
        '')''
       = Inr \<lparr>output' = [''1'', ''+''], stack = [], sign = None, lastToken = Some '')''\<rparr>
   \<and> (\<exists>t popped. [''('', ''sin'', ''+''] = [] @ t # popped
         \<and> [''1'', ''+'']
             = [''1''] @ filter (\<lambda>x. \<not> isFunction (trig_instance sample_coercions) x) (rev popped))
   \<and> drain [''sin''] [''1''] = Inr [''1'', ''sin'']"
  using C3_function_marker
    [of "trig_instance sample_coercions" "''sin''"
        "\<lparr>output' = [], stack = [''(''], sign = None, lastToken = Some ''(''\<rparr>"
        "\<lparr>output' = [''1'', ''+''], stack = [], sign = None, lastToken = Some '')''\<rparr>"
        "[''sin'']" "[''1'']"]
    C3_function_marker
    [of "trig_instance sample_coercions" "''sin''"
        "\<lparr>output' = [''1''], stack = [''('', ''sin'', ''+''], sign = None, lastToken = Some ''2''\<rparr>"
        "\<lparr>output' = [''1'', ''+''], stack = [], sign = None, lastToken = Some '')''\<rparr>"
        "[''sin'']" "[''1'']"]
  by (simp add: trig_token_simps)




text \<open>
  C5. In \<open>resolveRpn\<close>, for a token that finds a registered descriptor (an operator, or a
  function whose name is neither an operator nor a property of \<open>Object.prototype\<close>) of
  arity at least one, with at least that many operands on the stack, exactly arity
  operands are removed from the end of the operand stack and passed to the behaviour as
  an argument list in their original left-to-right order, and the single result is
  pushed. With the default table, \<open>resolve("8-3-2")\<close> is 3 and \<open>resolve("2^3^2")\<close> is 512.
\<close>

theorem C5_arity_operands:
  "((map_of (operators this) token = Some op
      \<or> (map_of (operators this) token = None \<and> token \<notin> set Object_prototype_keys
         \<and> map_of (functions' this) token = Some op))
     \<and> 1 \<le> params op \<and> params op \<le> int (length stk)
     \<longrightarrow> (\<exists>rest args. stk = rest @ args \<and> int (length args) = params op
            \<and> rpn_step this stk token = Inr (rest @ [method' op args])))
   \<and> resolve (default_instance c) (Str ''8-3-2'') = Some (Inr (JNum (Fin 3)))
   \<and> resolve (default_instance c) (Str ''2^3^2'') = Some (Inr (JNum (Fin 512)))"
proof -
  have "\<exists>rest args. stk = rest @ args \<and> int (length args) = params op
            \<and> rpn_step this stk token = Inr (rest @ [method' op args])"
    if h: "lookup this token = Own op" "1 \<le> params op" "params op \<le> int (length stk)"
  proof -
    let ?k = "length stk - nat (params op)"
    have "stk = take ?k stk @ drop ?k stk" by simp
    moreover have "int (length (drop ?k stk)) = params op" using h(2,3) by simp
    moreover note rpn_step_Own [OF h(1,2), of stk]
    ultimately show ?thesis by blast
  qed
  then show ?thesis
    using resolve_8_3_2 [of c] resolve_2_3_2 [of c] by (simp add: lookup_Own_iff)
qed

theorem C5_arity_operands_witness:
  "map_of (operators (default_instance sample_coercions)) ''-''
     = Some \<lparr>symbol = ''-'', precedence = 2, associativity = ''left'', params = 2,
             method' = (\<lambda>args. js_sub sample_coercions (arg args 0) (arg args 1))\<rparr>
   \<and> (\<exists>rest args. [JNum (Fin 1), JNum (Fin 8), JNum (Fin 3)] = rest @ args
        \<and> int (length args) = 2
        \<and> rpn_step (default_instance sample_coercions)
             [JNum (Fin 1), JNum (Fin 8), JNum (Fin 3)] ''-''
            = Inr (rest @ [js_sub sample_coercions (arg args 0) (arg args 1)]))"
  using C5_arity_operands
    [of "default_instance sample_coercions" "''-''"
        "\<lparr>symbol = ''-'', precedence = 2, associativity = ''left'', params = 2,
          method' = (\<lambda>args. js_sub sample_coercions (arg args 0) (arg args 1))\<rparr>"
        "[JNum (Fin 1), JNum (Fin 8), JNum (Fin 3)]" sample_coercions]
  by (simp add: default_fields default_operators_def)

text \<open>
  C6. For a token that is not empty, not a parenthesis and not a function name, and with
  no sign pending, the loop body leaves a sign pending if and only if the previous token
  is empty (start of input) or a left parenthesis and the token is a registered operator;
  the token is then held in \<open>sign\<close> and nothing else changes, so it is not treated as an
  operator. A pending sign is concatenated in front of the following token, which is then
  classified. With the default table, \<open>resolve("-5+3")\<close> is -2.
\<close>

theorem C6_sign_folding:
  "(\<not> isLeftPara token \<and> \<not> isRightPara token \<and> \<not> isFunction this token
      \<and> \<not> truthy (sign st) \<and> token \<noteq> []
     \<longrightarrow> ((\<exists>st'. process_token this st token = Inr st' \<and> truthy (sign st'))
            \<longleftrightarrow> (\<not> truthy (lastToken st) \<or> lastToken st = Some ''('') \<and> isOperator this token)
         \<and> ((\<not> truthy (lastToken st) \<or> lastToken st = Some ''('') \<and> isOperator this token
            \<longrightarrow> process_token this st token = Inr (st\<lparr>sign := Some token\<rparr>)))
   \<and> (sign st = Some s \<and> s \<noteq> []
     \<longrightarrow> process_token this st following = classify this (st\<lparr>sign := None\<rparr>) (s @ following))
   \<and> resolve (default_instance c) (Str ''-5+3'') = Some (Inr (JNum (Fin (- 2))))"
  using classify_sign_pending [of token this st] classify_sign_held [of token this st]
    process_token_sign [of st s this following] resolve_m5_3 [of c]
  by (simp add: process_token_no_sign)

theorem C6_sign_folding_witness:
  "isOperator (default_instance sample_coercions) ''-''
   \<and> process_token (default_instance sample_coercions) initial ''-''
       = Inr (initial\<lparr>sign := Some ''-''\<rparr>)
   \<and> process_token (default_instance sample_coercions) (initial\<lparr>sign := Some ''-''\<rparr>) ''5''
       = classify (default_instance sample_coercions) initial ''-5''"
  using C6_sign_folding [of "''-''" "default_instance sample_coercions" initial "''-''" "''5''"]
    C6_sign_folding
      [of "''-''" "default_instance sample_coercions" "initial\<lparr>sign := Some ''-''\<rparr>" "''-''" "''5''"]
  by (simp add: isOperator_default isFunction_default isLeftPara_def isRightPara_def truthy_def
        initial_def)

text \<open>
  C7, as stated, fails: white-space handling is not skipped for a pre-tokenized input.
  For the array \<open>["1"," ","2"]\<close> the element \<open>" "\<close> is discarded and \<open>parse\<close> returns
  \<open>["12"]\<close>, whereas feeding each of the three elements to the state machine as one opaque
  token gives \<open>["1 2"]\<close>.
\<close>

theorem C7_pretokenized_counterexample:
  "parse (default_instance sample_coercions) (Arr [''1'', '' '', ''2'']) = Some (Inr [''12''])
   \<and> feed_tokens (default_instance sample_coercions) initial [''1'', '' '', ''2'']
       = Inr [''1 2'']"
  using parse_array_space [of sample_coercions] feed_array_space [of sample_coercions]
  by (rule conjI)

text \<open>
  C7, amended. For a pre-tokenized sequence, symbol matching is skipped and each element
  is one token, but an element equal to a single space is still discarded. Both entry
  modes feed the same state machine: \<open>parse\<close> of an array is the state machine fed with
  its elements other than the single space, and \<open>parse\<close> of a string (when the empty
  string is not a registered symbol) is the same state machine fed with the tokens
  scanned from the string other than the single space.
\<close>

theorem C7_entry_modes:
  "parse this (Arr ts) = Some (feed_tokens this initial (filter (\<lambda>t. t \<noteq> '' '') ts))
   \<and> ([] \<notin> set (op_tokens this)
      \<longrightarrow> (\<exists>toks. tokens_from this s 0 = Some toks
             \<and> parse this (Str s)
                 = Some (feed_tokens this initial (filter (\<lambda>t. t \<noteq> '' '') toks))))"
  using parse_loop_Arr [of this ts 0 initial] tokens_from_total [of this s 0]
    parse_loop_Str [of this s 0 _ initial]
  by (auto simp: parse_def)

theorem C7_entry_modes_witness:
  "[] \<notin> set (op_tokens (default_instance sample_coercions))
   \<and> parse (default_instance sample_coercions) (Arr [''1'', '' '', ''2''])
       = Some (feed_tokens (default_instance sample_coercions) initial [''1'', ''2''])
   \<and> (\<exists>toks. tokens_from (default_instance sample_coercions) ''3+4'' 0 = Some toks
        \<and> parse (default_instance sample_coercions) (Str ''3+4'')
            = Some (feed_tokens (default_instance sample_coercions) initial
                      (filter (\<lambda>t. t \<noteq> '' '') toks)))"
  using C7_entry_modes [of "default_instance sample_coercions" "[''1'', '' '', ''2'']" "''3+4''"]
  by (simp add: op_tokens_default)

text \<open>
  C8, as stated, fails: no failure surfaces. With the default table, the sequence
  \<open>["1","+"]\<close> reaches \<open>+\<close> (arity two) with one operand on the stack; the behaviour is
  applied to that single operand, the missing one being \<open>undefined\<close>, and \<open>resolveRpn\<close>
  returns \<open>NaN\<close>.
\<close>

theorem C8_underflow_counterexample:
  "rpn_step (default_instance sample_coercions) [JNum (Fin 1)] ''+'' = Inr [JNum NaN]
   \<and> resolveRpn (default_instance sample_coercions) [''1'', ''+''] = Inr (JNum NaN)"
  by (simp add: resolveRpn_underflow) (simp add: rpn_simps number_simps)

text \<open>
  C8, amended. In \<open>resolveRpn\<close>, when the arity of the descriptor (at least one) exceeds
  the number of operands on the operand stack, no failure is raised: all the operands
  present are removed and passed to the behaviour as a shorter argument list, and its
  result becomes the only element of the stack.
\<close>

theorem C8_underflow:
  "(map_of (operators this) token = Some op
      \<or> (map_of (operators this) token = None \<and> token \<notin> set Object_prototype_keys
         \<and> map_of (functions' this) token = Some op))
     \<and> 1 \<le> params op \<and> int (length stk) < params op
     \<longrightarrow> rpn_step this stk token = Inr [method' op stk]"
  using rpn_step_Own [of this token op stk] by (auto simp: lookup_Own_iff)

theorem C8_underflow_witness:
  "map_of (operators (default_instance sample_coercions)) ''+''
     = Some \<lparr>symbol = ''+'', precedence = 2, associativity = ''left'', params = 2,
             method' = (\<lambda>args. js_add sample_coercions (arg args 0) (arg args 1))\<rparr>
   \<and> rpn_step (default_instance sample_coercions) [JNum (Fin 1)] ''+''
       = Inr [js_add sample_coercions (JNum (Fin 1)) JUndefined]"
  using C8_underflow
    [of "default_instance sample_coercions" "''+''"
        "\<lparr>symbol = ''+'', precedence = 2, associativity = ''left'', params = 2,
          method' = (\<lambda>args. js_add sample_coercions (arg args 0) (arg args 1))\<rparr>"
        "[JNum (Fin 1)]"]
  by (simp add: default_fields default_operators_def arg_def)

text \<open>
  C9 fails on the code for a token that names a property of \<open>Object.prototype\<close>. The
  token \<open>constructor\<close> is not a registered operator or function (\<open>isOperator\<close> and
  \<open>isFunction\<close> are false, and \<open>parse\<close> treats it as a literal), but
  \<open>this.operators["constructor"]\<close> is truthy, so \<open>resolveRpn\<close> does not push a literal
  and throws a \<open>TypeError\<close>.
\<close>

theorem C9_inherited_property:
  "\<not> isOperator (default_instance c) ''constructor''
   \<and> \<not> isFunction (default_instance c) ''constructor''
   \<and> parse (default_instance c) (Str ''constructor'') = Some (Inr [''constructor''])
   \<and> resolveRpn (default_instance c) [''constructor''] = Inl TypeError
   \<and> resolve (default_instance c) (Str ''constructor'') = Some (Inl TypeError)"
  by (simp add: isOperator_default isFunction_default parse_constructor resolveRpn_constructor
        resolve_def)

text \<open>
  C10. \<open>resolveRpn\<close> returns the first element of the final operand stack, without any
  check: \<open>undefined\<close> for the empty sequence and whenever the final stack is empty, and
  the earliest-pushed remaining value when several values are left, the rest being
  discarded. In particular a sequence of literals only evaluates to its first literal.
\<close>

theorem C10_first_element:
  "resolveRpn this [] = Inr JUndefined
   \<and> (rpn_loop this arr [] = Inr [] \<longrightarrow> resolveRpn this arr = Inr JUndefined)
   \<and> (rpn_loop this arr [] = Inr (v # others) \<longrightarrow> resolveRpn this arr = Inr v)
   \<and> ((\<forall>t\<in>set (t0 # ts). lookup this t = Absent)
      \<longrightarrow> resolveRpn this (t0 # ts) = Inr (literal this t0))"
  using rpn_loop_literals [of "t0 # ts" this "[]"]
  by (auto simp: resolveRpn_def first_element_def)

theorem C10_first_element_witness:
  "rpn_loop (default_instance sample_coercions) [''1'', ''2'', ''+'', ''7''] []
     = Inr [JNum (Fin 3), JNum (Fin 7)]
   \<and> resolveRpn (default_instance sample_coercions) [''1'', ''2'', ''+'', ''7''] = Inr (JNum (Fin 3))
   \<and> resolveRpn (default_instance sample_coercions) [''7'', ''8''] = Inr (JNum (parseFloat ''7''))"
  using C10_first_element
      [of "default_instance sample_coercions" "[''1'', ''2'', ''+'', ''7'']" "JNum (Fin 3)"
          "[JNum (Fin 7)]" "''7''" "[''8'']"]
  by (simp add: rpn_simps number_simps)

end
